theory Spec2Isabelle
  imports Complex_Main
begin

section \<open>GuidanceNet: construction and forward wiring\<close>

text \<open>
  A shallow embedding of \<^verbatim>\<open>modulus/models/diffusion/guidance.py\<close>. The file wires layers
  of a sibling layer library (PositionalEmbedding, Linear, Conv2d, UNetBlock, GroupNorm) and
  of the tensor framework, none of which is part of the sources. A layer is therefore
  represented by the arguments its constructor is called with, the object under construction
  by its attribute dictionary, and the numerical kernels are parameters of the forward pass.
\<close>

subsection \<open>Exceptions and values\<close>

datatype error =
    AttributeError string
  | NotImplementedError string
  | TypeError string
  | KeyError string
  | ValueError string
  | IndexError string
  | FrameworkError string

text \<open>The keyword dictionaries \<^verbatim>\<open>init\<close>, \<^verbatim>\<open>init_zero\<close>, the label initialisation
  \<^verbatim>\<open>init_mode="kaiming_normal", init_weight=np.sqrt(label_dim)\<close>, and no keywords at all.\<close>

datatype init_kwargs = Init | Init_zero | Init_label int | Init_default

text \<open>\<^verbatim>\<open>block_kwargs\<close> (lines 137-143); \<^verbatim>\<open>init\<close> and \<^verbatim>\<open>init_zero\<close> are the same for every block.\<close>

record block_kwargs =
  emb_channels :: int
  channels_per_head :: int
  block_dropout :: real

text \<open>A layer, as the arguments of its constructor call:
  \<^verbatim>\<open>Linear(in_features, out_features, bias, init)\<close>,
  \<^verbatim>\<open>Conv2d(in_channels, out_channels, kernel, init)\<close>,
  \<^verbatim>\<open>UNetBlock(in_channels, out_channels, down, attention, **block_kwargs)\<close>.\<close>

datatype layer =
    PositionalEmbedding int
  | Linear int int bool init_kwargs
  | Conv2d int int int init_kwargs
  | UNetBlock int int bool bool block_kwargs
  | GroupNorm int

datatype val =
    VNone
  | VBool bool
  | VInt int
  | VFloat real
  | VStr string
  | VLayer layer
  | VModuleDict "(string \<times> layer) list"
  | VTuple "val list"
  | VMeta

type_synonym obj = "string \<rightharpoonup> val"

record config =
  img_resolution :: int
  in_channels :: int
  out_channels :: int
  label_dim :: int
  augment_dim :: int
  model_channels :: int
  channel_mult :: "int list"
  channel_mult_emb :: int
  num_blocks :: int
  attn_resolutions :: "int list"
  dropout :: real
  label_dropout :: real
  pool :: string

text \<open>The defaults of the constructor's signature (lines 111-126).\<close>

definition default_config :: "int \<Rightarrow> int \<Rightarrow> int \<Rightarrow> config" where
  "default_config res cin cout =
     \<lparr>img_resolution = res, in_channels = cin, out_channels = cout,
      label_dim = 0, augment_dim = 0, model_channels = 192,
      channel_mult = [1, 2, 3, 4], channel_mult_emb = 4, num_blocks = 3,
      attn_resolutions = [32, 16, 8], dropout = 0.10, label_dropout = 0.0,
      pool = ''spatial''\<rparr>"

subsection \<open>Attribute access and module dictionaries\<close>

text \<open>\<^verbatim>\<open>self.name\<close>: a missing attribute raises AttributeError.\<close>

definition getattr :: "obj \<Rightarrow> string \<Rightarrow> error + val" where
  "getattr slf name = (case slf name of None \<Rightarrow> Inl (AttributeError name) | Some v \<Rightarrow> Inr v)"

text \<open>A ModuleDict is an ordered dictionary: assigning to a key that is present replaces the
  value and keeps the key's position; a new key goes to the end.\<close>

fun setitem :: "(string \<times> 'v) list \<Rightarrow> string \<Rightarrow> 'v \<Rightarrow> (string \<times> 'v) list" where
  "setitem [] k v = [(k, v)]"
| "setitem ((k', v') # d) k v =
     (if k' = k then (k', v) # d else (k', v') # setitem d k v)"

definition getitem :: "(string \<times> 'v) list \<Rightarrow> string \<Rightarrow> error + 'v" where
  "getitem d k = (case map_of d k of None \<Rightarrow> Inl (KeyError k) | Some v \<Rightarrow> Inr v)"

definition values_of :: "(string \<times> 'v) list \<Rightarrow> 'v list" where
  "values_of d = map snd d"

text \<open>\<^verbatim>\<open>ModuleDict.__setitem__\<close> registers a sub-module; the framework rejects a value that
  is not a module with TypeError.\<close>

definition module_setitem ::
  "(string \<times> layer) list \<Rightarrow> string \<Rightarrow> val \<Rightarrow> error + (string \<times> layer) list" where
  "module_setitem d k v =
     (case v of VLayer l \<Rightarrow> Inr (setitem d k l)
      | _ \<Rightarrow> Inl (TypeError ''value is not a Module subclass''))"

subsection \<open>String formatting of integers\<close>

definition digit_chars :: string where
  "digit_chars = ''0123456789''"

fun str_nat :: "nat \<Rightarrow> string" where
  "str_nat n = (if n < 10 then [digit_chars ! n]
                else str_nat (n div 10) @ [digit_chars ! (n mod 10)])"

declare str_nat.simps [simp del]

definition str_int :: "int \<Rightarrow> string" where
  "str_int i = (if i < 0 then CHR ''-'' # str_nat (nat (- i)) else str_nat (nat i))"

text \<open>The keys \<^verbatim>\<open>f"{res}x{res}_conv"\<close>, \<^verbatim>\<open>f"{res}x{res}_down"\<close> and
  \<^verbatim>\<open>f"{res}x{res}_block{idx}"\<close>.\<close>

definition key_conv :: "int \<Rightarrow> string" where
  "key_conv res = str_int res @ ''x'' @ str_int res @ ''_conv''"

definition key_down :: "int \<Rightarrow> string" where
  "key_down res = str_int res @ ''x'' @ str_int res @ ''_down''"

definition key_block :: "int \<Rightarrow> nat \<Rightarrow> string" where
  "key_block res idx = str_int res @ ''x'' @ str_int res @ ''_block'' @ str_nat idx"

subsection \<open>Construction (\<^verbatim>\<open>GuidanceNet.__init__\<close>)\<close>

text \<open>The state of a construction: the attributes of \<^verbatim>\<open>self\<close> so far, and the layers
  whose constructors have run, in order.\<close>

record cstate =
  self :: obj
  built :: "layer list"

definition setattr :: "string \<Rightarrow> val \<Rightarrow> cstate \<Rightarrow> cstate" where
  "setattr name v st = st\<lparr>self := (self st)(name \<mapsto> v)\<rparr>"

definition build :: "layer \<Rightarrow> cstate \<Rightarrow> cstate" where
  "build l st = st\<lparr>built := built st @ [l]\<rparr>"

text \<open>\<^verbatim>\<open>self.name = Layer(...)\<close>: the constructor runs, then the attribute is bound.\<close>

definition assign_layer :: "string \<Rightarrow> layer \<Rightarrow> cstate \<Rightarrow> cstate" where
  "assign_layer name l st = setattr name (VLayer l) (build l st)"

definition kwargs_of :: "config \<Rightarrow> block_kwargs" where
  "kwargs_of cfg =
     \<lparr>emb_channels = model_channels cfg * channel_mult_emb cfg,
      channels_per_head = 64,
      block_dropout = dropout cfg\<rparr>"

text \<open>Lines 128-173: the first attributes and the mapping layers. \<^verbatim>\<open>if augment_dim\<close> and
  \<^verbatim>\<open>if label_dim\<close> test an integer for being non-zero.\<close>

definition init_mapping :: "config \<Rightarrow> cstate \<Rightarrow> cstate" where
  "init_mapping cfg st0 =
     (let emb = model_channels cfg * channel_mult_emb cfg;
          st1 = setattr ''label_dropout'' (VFloat (label_dropout cfg)) st0;
          st2 = setattr ''pool'' (VStr (pool cfg)) st1;
          st3 = assign_layer ''map_noise'' (PositionalEmbedding (model_channels cfg)) st2;
          st4 = (if augment_dim cfg \<noteq> 0
                 then assign_layer ''map_augment''
                        (Linear (augment_dim cfg) (model_channels cfg) False Init_zero) st3
                 else setattr ''map_augment'' VNone st3);
          st5 = assign_layer ''map_layer0'' (Linear (model_channels cfg) emb True Init) st4;
          st6 = assign_layer ''map_layer1'' (Linear emb emb True Init) st5
      in if label_dim cfg \<noteq> 0
         then assign_layer ''map_label''
                (Linear (label_dim cfg) emb False (Init_label (label_dim cfg))) st6
         else setattr ''map_label'' VNone st6)"

text \<open>Lines 176-198. The loop variables are the running channel count \<^verbatim>\<open>cout\<close>, the
  dictionary \<^verbatim>\<open>self.enc\<close> and the layers constructed so far.\<close>

record enc_state =
  cout :: int
  enc :: "(string \<times> layer) list"
  made :: "layer list"

definition enc_put :: "string \<Rightarrow> layer \<Rightarrow> int \<Rightarrow> enc_state \<Rightarrow> enc_state" where
  "enc_put k l c s = \<lparr>cout = c, enc = setitem (enc s) k l, made = made s @ [l]\<rparr>"

text \<open>The inner loop \<^verbatim>\<open>for idx in range(num_blocks)\<close>.\<close>

fun enc_blocks :: "config \<Rightarrow> int \<Rightarrow> int \<Rightarrow> nat list \<Rightarrow> enc_state \<Rightarrow> enc_state" where
  "enc_blocks cfg res mult [] s = s"
| "enc_blocks cfg res mult (idx # idxs) s =
     (let cin = cout s;
          cout' = model_channels cfg * mult
      in enc_blocks cfg res mult idxs
           (enc_put (key_block res idx)
              (UNetBlock cin cout' False (res \<in> set (attn_resolutions cfg)) (kwargs_of cfg))
              cout' s))"

text \<open>One iteration of \<^verbatim>\<open>for level, mult in enumerate(channel_mult)\<close>;
  \<^verbatim>\<open>img_resolution >> level\<close> is the floor of the division by \<open>2 ^ level\<close>.\<close>

definition enc_level :: "config \<Rightarrow> nat \<Rightarrow> int \<Rightarrow> enc_state \<Rightarrow> enc_state" where
  "enc_level cfg level mult s =
     (let res = img_resolution cfg div 2 ^ level;
          s1 = (if level = 0
                then (let cin = cout s;
                          cout' = model_channels cfg * mult
                      in enc_put (key_conv res) (Conv2d cin cout' 3 Init) cout' s)
                else enc_put (key_down res)
                       (UNetBlock (cout s) (cout s) True False (kwargs_of cfg)) (cout s) s)
      in enc_blocks cfg res mult [0..<nat (num_blocks cfg)] s1)"

fun enc_levels :: "config \<Rightarrow> (nat \<times> int) list \<Rightarrow> enc_state \<Rightarrow> enc_state" where
  "enc_levels cfg [] s = s"
| "enc_levels cfg ((level, mult) # rest) s = enc_levels cfg rest (enc_level cfg level mult s)"

definition enumerate_list :: "'a list \<Rightarrow> (nat \<times> 'a) list" where
  "enumerate_list xs = zip [0..<length xs] xs"

definition build_encoder :: "config \<Rightarrow> enc_state" where
  "build_encoder cfg =
     enc_levels cfg (enumerate_list (channel_mult cfg))
       \<lparr>cout = in_channels cfg, enc = [], made = []\<rparr>"

text \<open>\<^verbatim>\<open>self.enc\<close> is bound to the dictionary at line 176 and filled in place; no statement
  of the loop can raise, so the attribute is written here with its final content. Line 199
  reads the \<^verbatim>\<open>out_channels\<close> of every stage into a local list that is not used again.\<close>

definition init_encoder :: "config \<Rightarrow> cstate \<Rightarrow> cstate" where
  "init_encoder cfg st =
     (let s = build_encoder cfg
      in setattr ''enc'' (VModuleDict (enc s)) (st\<lparr>built := built st @ made s\<rparr>))"

text \<open>The channel counts a stage is constructed with (\<^verbatim>\<open>in_channels\<close>,
  \<^verbatim>\<open>out_channels\<close>; \<^verbatim>\<open>in_features\<close>, \<^verbatim>\<open>out_features\<close> for a linear layer), and the
  stages of a list fitting each other: each stage's output count is the input count of the
  stage after it.\<close>

fun layer_in_channels :: "layer \<Rightarrow> int" where
  "layer_in_channels (PositionalEmbedding n) = n"
| "layer_in_channels (Linear i j b ini) = i"
| "layer_in_channels (Conv2d i j k ini) = i"
| "layer_in_channels (UNetBlock i j down attention kw) = i"
| "layer_in_channels (GroupNorm n) = n"

fun layer_out_channels :: "layer \<Rightarrow> int" where
  "layer_out_channels (PositionalEmbedding n) = n"
| "layer_out_channels (Linear i j b ini) = j"
| "layer_out_channels (Conv2d i j k ini) = j"
| "layer_out_channels (UNetBlock i j down attention kw) = j"
| "layer_out_channels (GroupNorm n) = n"

fun channels_chain :: "layer list \<Rightarrow> bool" where
  "channels_chain [] = True"
| "channels_chain [l] = True"
| "channels_chain (l # l' # ls) =
     (layer_out_channels l = layer_in_channels l' \<and> channels_chain (l' # ls))"

text \<open>The resolutions of the levels, \<^verbatim>\<open>img_resolution >> level\<close> for each level.\<close>

definition level_resolutions :: "config \<Rightarrow> int list" where
  "level_resolutions cfg =
     map (\<lambda>level. img_resolution cfg div 2 ^ level) [0..<length (channel_mult cfg)]"

text \<open>Lines 202-208. In \<^verbatim>\<open>self.out[k] = e\<close> the right-hand side \<open>e\<close> is evaluated first.
  Line 205 ends in a comma: its right-hand side is the tuple \<^verbatim>\<open>(GroupNorm(2048),)\<close>.\<close>

definition out_setitem :: "string \<Rightarrow> val \<Rightarrow> cstate \<Rightarrow> error + cstate" where
  "out_setitem k v st =
     (case getattr (self st) ''out'' of
        Inl e \<Rightarrow> Inl e
      | Inr (VModuleDict d) \<Rightarrow>
          (case module_setitem d k v of
             Inl e \<Rightarrow> Inl e
           | Inr d' \<Rightarrow> Inr (setattr ''out'' (VModuleDict d') st))
      | Inr _ \<Rightarrow> Inl (TypeError ''object does not support item assignment''))"

text \<open>\<^verbatim>\<open>Linear(a, b)\<close> with positional arguments; the sizes have to be integers.\<close>

definition Linear_positional :: "val \<Rightarrow> val \<Rightarrow> error + layer" where
  "Linear_positional a b =
     (case (a, b) of
        (VInt i, VInt j) \<Rightarrow> Inr (Linear i j True Init_default)
      | _ \<Rightarrow> Inl (TypeError ''Linear: size is not an integer''))"

text \<open>A construction ends with the state it reached and the exception raised, if any.\<close>

definition init_pooling :: "config \<Rightarrow> cstate \<Rightarrow> error option \<times> cstate" where
  "init_pooling cfg st =
     (if pool cfg = ''spatial'' then
        (let st1 = setattr ''out'' (VModuleDict []) st in
         case getattr (self st1) ''_feature_size'' of
           Inl e \<Rightarrow> (Some e, st1)
         | Inr fs \<Rightarrow>
         (case Linear_positional fs (VInt 2048) of
           Inl e \<Rightarrow> (Some e, st1)
         | Inr lin \<Rightarrow>
         (let st2 = build lin st1 in
          case out_setitem ''linear_in'' (VLayer lin) st2 of
           Inl e \<Rightarrow> (Some e, st2)
         | Inr st3 \<Rightarrow>
         (let st4 = build (GroupNorm 2048) st3 in
          case out_setitem ''group_norm'' (VTuple [VLayer (GroupNorm 2048)]) st4 of
           Inl e \<Rightarrow> (Some e, st4)
         | Inr st5 \<Rightarrow>
         (case getattr (self st5) ''out_channels'' of
           Inl e \<Rightarrow> (Some e, st5)
         | Inr oc \<Rightarrow>
         (case Linear_positional (VInt 2048) oc of
           Inl e \<Rightarrow> (Some e, st5)
         | Inr lout \<Rightarrow>
         (let st6 = build lout st5 in
          case out_setitem ''linear_out'' (VLayer lout) st6 of
           Inl e \<Rightarrow> (Some e, st6)
         | Inr st7 \<Rightarrow> (None, st7))))))))
      else (Some (NotImplementedError (''Unexpected '' @ pool cfg @ '' pooling'')), st))"

text \<open>The constructor. \<open>base\<close> is the object as \<^verbatim>\<open>super().__init__(meta=MetaData())\<close>
  leaves it; the base class is not part of the sources.\<close>

definition GuidanceNet_init :: "obj \<Rightarrow> config \<Rightarrow> error option \<times> cstate" where
  "GuidanceNet_init base cfg =
     init_pooling cfg (init_encoder cfg (init_mapping cfg \<lparr>self = base, built = []\<rparr>))"

text \<open>Modelled from the spec: the base class \<^verbatim>\<open>Module\<close> and its initialiser are missing
  from the sources. The spec describes "a generic module base class and a metadata
  descriptor" and a "training/inference mode"; a fresh module is in training mode.\<close>

definition Module_init :: obj where
  "Module_init = [''meta'' \<mapsto> VMeta, ''training'' \<mapsto> VBool True]"

subsection \<open>The forward pass (\<^verbatim>\<open>GuidanceNet.forward\<close>)\<close>

text \<open>The random generator is the stream of uniform draws still to come;
  \<^verbatim>\<open>torch.rand([n, 1])\<close> takes the next \<open>n\<close> of them.\<close>

type_synonym rng = "nat \<Rightarrow> real"

definition rand :: "nat \<Rightarrow> rng \<Rightarrow> real list \<times> rng" where
  "rand n g = (map g [0..<n], \<lambda>i. g (i + n))"

text \<open>The kernels of the layer library and of the tensor framework, over tensors of type
  \<open>'t\<close>. A layer is applied to its arguments under the name it is registered with, which
  selects its parameters. An argument is \<open>None\<close> or a tensor.\<close>

record 't ops =
  layer_eval :: "string \<Rightarrow> layer \<Rightarrow> 't option list \<Rightarrow> error + 't"
  layer_train :: "string \<Rightarrow> layer \<Rightarrow> 't option list \<Rightarrow> rng \<Rightarrow> (error + 't) \<times> rng"
  tensor_add :: "'t \<Rightarrow> 't \<Rightarrow> error + 't"
  tensor_mul :: "'t \<Rightarrow> 't \<Rightarrow> error + 't"
  silu :: "'t \<Rightarrow> 't"
  shape :: "'t \<Rightarrow> nat list"
  mask_to :: "bool list \<Rightarrow> 't \<Rightarrow> 't"
  dropout_train :: "'t \<Rightarrow> real \<Rightarrow> rng \<Rightarrow> 't \<times> rng"

text \<open>A computation that may raise and may draw from the generator.\<close>

type_synonym 'a M = "rng \<Rightarrow> (error + 'a) \<times> rng"

definition returnM :: "'a \<Rightarrow> 'a M" where
  "returnM v g = (Inr v, g)"

definition raiseM :: "error \<Rightarrow> 'a M" where
  "raiseM e g = (Inl e, g)"

definition liftM :: "error + 'a \<Rightarrow> 'a M" where
  "liftM r g = (r, g)"

definition bindM :: "'a M \<Rightarrow> ('a \<Rightarrow> 'b M) \<Rightarrow> 'b M" where
  "bindM m f g = (case m g of (Inl e, g') \<Rightarrow> (Inl e, g') | (Inr v, g') \<Rightarrow> f v g')"

text \<open>Python truth value of an attribute.\<close>

fun truthy :: "val \<Rightarrow> bool" where
  "truthy VNone = False"
| "truthy (VBool b) = b"
| "truthy (VInt i) = (i \<noteq> 0)"
| "truthy (VFloat r) = (r \<noteq> 0)"
| "truthy (VStr s) = (s \<noteq> [])"
| "truthy (VLayer l) = True"
| "truthy (VModuleDict d) = (d \<noteq> [])"
| "truthy (VTuple vs) = (vs \<noteq> [])"
| "truthy VMeta = True"

fun as_number :: "val \<Rightarrow> real option" where
  "as_number (VBool b) = Some (if b then 1 else 0)"
| "as_number (VInt i) = Some (real_of_int i)"
| "as_number (VFloat r) = Some r"
| "as_number v = None"

text \<open>Modelled from the spec: the sub-layers' own forward passes are missing from the
  sources. By the spec, training or inference mode affects "only dropout behavior": a
  sub-layer draws from the generator in training mode only. Sub-layers share the
  module's \<^verbatim>\<open>training\<close> flag.\<close>

definition training_mode :: "obj \<Rightarrow> bool" where
  "training_mode slf = (case slf ''training'' of None \<Rightarrow> False | Some v \<Rightarrow> truthy v)"

definition call_layer :: "'t ops \<Rightarrow> obj \<Rightarrow> string \<Rightarrow> val \<Rightarrow> 't option list \<Rightarrow> 't M" where
  "call_layer ops slf name f args =
     (case f of
        VLayer l \<Rightarrow>
          (if training_mode slf then layer_train ops name l args
           else liftM (layer_eval ops name l args))
      | _ \<Rightarrow> raiseM (TypeError ''object is not callable''))"

text \<open>Lines 212-216: the noise embedding, the augmentation branch and the two linear layers.\<close>

definition fwd_noise :: "'t ops \<Rightarrow> obj \<Rightarrow> 't option \<Rightarrow> 't option \<Rightarrow> 't M" where
  "fwd_noise ops slf noise_labels augment_labels =
     bindM (liftM (getattr slf ''map_noise'')) (\<lambda>mn.
     bindM (call_layer ops slf ''map_noise'' mn [noise_labels]) (\<lambda>emb.
     bindM (liftM (getattr slf ''map_augment'')) (\<lambda>ma.
     bindM (if ma \<noteq> VNone \<and> augment_labels \<noteq> None
            then bindM (call_layer ops slf ''map_augment'' ma [augment_labels]) (\<lambda>a.
                 liftM (tensor_add ops emb a))
            else returnM emb) (\<lambda>emb.
     bindM (liftM (getattr slf ''map_layer0'')) (\<lambda>l0.
     bindM (call_layer ops slf ''map_layer0'' l0 [Some emb]) (\<lambda>e0.
     bindM (liftM (getattr slf ''map_layer1'')) (\<lambda>l1.
     call_layer ops slf ''map_layer1'' l1 [Some (silu ops e0)])))))))"

text \<open>\<^verbatim>\<open>x.shape[0]\<close>.\<close>

definition shape0 :: "'t ops \<Rightarrow> 't option \<Rightarrow> error + nat" where
  "shape0 ops x =
     (case x of
        None \<Rightarrow> Inl (AttributeError ''shape'')
      | Some t \<Rightarrow> (case shape ops t of [] \<Rightarrow> Inl (IndexError ''shape'') | n # _ \<Rightarrow> Inr n))"

text \<open>\<^verbatim>\<open>torch.rand(...) >= self.label_dropout\<close>: one comparison per sample.\<close>

definition keep_mask :: "real list \<Rightarrow> val \<Rightarrow> error + bool list" where
  "keep_mask us p =
     (case as_number p of
        None \<Rightarrow> Inl (TypeError ''>= not supported'')
      | Some r \<Rightarrow> Inr (map (\<lambda>u. u \<ge> r) us))"

text \<open>\<^verbatim>\<open>tmp * mask.to(tmp.dtype)\<close>: the mask becomes a tensor of zeros and ones of the
  labels' type; \<^verbatim>\<open>None\<close> has no \<^verbatim>\<open>dtype\<close>.\<close>

definition apply_mask :: "'t ops \<Rightarrow> bool list \<Rightarrow> 't option \<Rightarrow> error + 't" where
  "apply_mask ops keep tmp =
     (case tmp of
        None \<Rightarrow> Inl (AttributeError ''dtype'')
      | Some t \<Rightarrow> tensor_mul ops t (mask_to ops keep t))"

text \<open>Lines 218-222: the value \<^verbatim>\<open>tmp\<close> handed to \<^verbatim>\<open>map_label\<close>.\<close>

definition label_input :: "'t ops \<Rightarrow> obj \<Rightarrow> 't option \<Rightarrow> 't option \<Rightarrow> 't option M" where
  "label_input ops slf x class_labels =
     bindM (liftM (getattr slf ''training'')) (\<lambda>tr.
     if truthy tr then
       bindM (liftM (getattr slf ''label_dropout'')) (\<lambda>ld.
       if truthy ld then
         bindM (liftM (shape0 ops x)) (\<lambda>n.
         bindM (\<lambda>g. (Inr (fst (rand n g)), snd (rand n g))) (\<lambda>us.
         bindM (liftM (getattr slf ''label_dropout'')) (\<lambda>p.
         bindM (liftM (keep_mask us p)) (\<lambda>keep.
         bindM (liftM (apply_mask ops keep class_labels)) (\<lambda>t.
         returnM (Some t))))))
       else returnM class_labels)
     else returnM class_labels)"

text \<open>Line 223, right-hand operand: the class-label contribution \<^verbatim>\<open>self.map_label(tmp)\<close>.\<close>

definition label_contribution ::
  "'t ops \<Rightarrow> obj \<Rightarrow> val \<Rightarrow> 't option \<Rightarrow> 't option \<Rightarrow> 't M" where
  "label_contribution ops slf ml x class_labels =
     bindM (label_input ops slf x class_labels) (\<lambda>tmp.
     call_layer ops slf ''map_label'' ml [tmp])"

text \<open>Lines 217-224.\<close>

definition fwd_label :: "'t ops \<Rightarrow> obj \<Rightarrow> 't option \<Rightarrow> 't option \<Rightarrow> 't \<Rightarrow> 't M" where
  "fwd_label ops slf x class_labels emb =
     bindM (liftM (getattr slf ''map_label'')) (\<lambda>ml.
     bindM (if ml \<noteq> VNone
            then bindM (label_contribution ops slf ml x class_labels) (\<lambda>lab.
                 liftM (tensor_add ops emb lab))
            else returnM emb) (\<lambda>emb.
     returnM (silu ops emb)))"

text \<open>Lines 227-230: every stage of \<^verbatim>\<open>self.enc.values()\<close> in order; a UNetBlock takes the
  embedding, any other stage only the feature map.\<close>

fun is_UNetBlock :: "layer \<Rightarrow> bool" where
  "is_UNetBlock (UNetBlock cin cout' down attention kw) = True"
| "is_UNetBlock l = False"

text \<open>A downsampling block is a UNetBlock constructed with \<^verbatim>\<open>down=True\<close>; the other
  UNetBlocks are the residual blocks.\<close>

fun is_down :: "layer \<Rightarrow> bool" where
  "is_down (UNetBlock cin cout' down attention kw) = down"
| "is_down l = False"

fun fwd_encoder ::
  "'t ops \<Rightarrow> obj \<Rightarrow> (string \<times> layer) list \<Rightarrow> 't option \<Rightarrow> 't \<Rightarrow> 't list
     \<Rightarrow> ('t option \<times> 't list) M" where
  "fwd_encoder ops slf [] x emb skips = returnM (x, skips)"
| "fwd_encoder ops slf ((k, block) # rest) x emb skips =
     bindM (if is_UNetBlock block
            then call_layer ops slf (''enc.'' @ k) (VLayer block) [x, Some emb]
            else call_layer ops slf (''enc.'' @ k) (VLayer block) [x]) (\<lambda>x'.
     fwd_encoder ops slf rest (Some x') emb (skips @ [x']))"

text \<open>\<^verbatim>\<open>self.enc.values()\<close> and \<^verbatim>\<open>self.out[k]\<close>.\<close>

definition module_dict :: "obj \<Rightarrow> string \<Rightarrow> error + (string \<times> layer) list" where
  "module_dict slf name =
     (case getattr slf name of
        Inl e \<Rightarrow> Inl e
      | Inr (VModuleDict d) \<Rightarrow> Inr d
      | Inr _ \<Rightarrow> Inl (TypeError ''object is not a ModuleDict''))"

definition out_layer :: "obj \<Rightarrow> string \<Rightarrow> error + val" where
  "out_layer slf k =
     (case module_dict slf ''out'' of
        Inl e \<Rightarrow> Inl e
      | Inr d \<Rightarrow> (case getitem d k of Inl e \<Rightarrow> Inl e | Inr l \<Rightarrow> Inr (VLayer l)))"

text \<open>\<^verbatim>\<open>torch.nn.functional.dropout(x, p, training)\<close>: a probability outside \<open>[0, 1]\<close> is
  rejected; outside training the input is returned as it is.\<close>

definition F_dropout :: "'t ops \<Rightarrow> 't \<Rightarrow> val \<Rightarrow> val \<Rightarrow> 't M" where
  "F_dropout ops x p training =
     (case as_number p of
        None \<Rightarrow> raiseM (TypeError ''dropout probability is not a number'')
      | Some r \<Rightarrow>
          if r < 0 \<or> r > 1 then raiseM (ValueError ''dropout probability has to be between 0 and 1'')
          else if truthy training then (\<lambda>g. (Inr (fst (dropout_train ops x r g)),
                                            snd (dropout_train ops x r g)))
          else returnM x)"

text \<open>Lines 234-238.\<close>

definition fwd_pooling :: "'t ops \<Rightarrow> obj \<Rightarrow> 't option \<Rightarrow> 't M" where
  "fwd_pooling ops slf x =
     bindM (liftM (out_layer slf ''linear_in'')) (\<lambda>lin.
     bindM (call_layer ops slf ''out.linear_in'' lin [x]) (\<lambda>x1.
     bindM (liftM (out_layer slf ''group_norm'')) (\<lambda>gn.
     bindM (call_layer ops slf ''out.group_norm'' gn [Some x1]) (\<lambda>x2.
     bindM (liftM (getattr slf ''dropout'')) (\<lambda>p.
     bindM (liftM (getattr slf ''training'')) (\<lambda>tr.
     bindM (F_dropout ops (silu ops x2) p tr) (\<lambda>x3.
     bindM (liftM (out_layer slf ''linear_out'')) (\<lambda>lout.
     call_layer ops slf ''out.linear_out'' lout [Some x3]))))))))"

definition forward ::
  "'t ops \<Rightarrow> obj \<Rightarrow> 't option \<Rightarrow> 't option \<Rightarrow> 't option \<Rightarrow> 't option \<Rightarrow> 't M" where
  "forward ops slf x noise_labels class_labels augment_labels =
     bindM (fwd_noise ops slf noise_labels augment_labels) (\<lambda>e1.
     bindM (fwd_label ops slf x class_labels e1) (\<lambda>emb.
     bindM (liftM (module_dict slf ''enc'')) (\<lambda>d.
     bindM (fwd_encoder ops slf d x emb []) (\<lambda>(x', skips).
     fwd_pooling ops slf x'))))"

text \<open>Binding the positional arguments of a call to the signature
  \<^verbatim>\<open>forward(self, x, noise_labels, class_labels, augment_labels=None)\<close>: only the last
  parameter has a default.\<close>

definition call_forward :: "'t ops \<Rightarrow> obj \<Rightarrow> 't option list \<Rightarrow> 't M" where
  "call_forward ops slf args =
     (case args of
        [x, noise_labels, class_labels] \<Rightarrow> forward ops slf x noise_labels class_labels None
      | [x, noise_labels, class_labels, augment_labels] \<Rightarrow>
          forward ops slf x noise_labels class_labels augment_labels
      | [] \<Rightarrow> raiseM (TypeError
          ''forward() missing 3 required positional arguments: x, noise_labels, and class_labels'')
      | [x] \<Rightarrow> raiseM (TypeError
          ''forward() missing 2 required positional arguments: noise_labels and class_labels'')
      | [x, noise_labels] \<Rightarrow> raiseM (TypeError
          ''forward() missing 1 required positional argument: class_labels'')
      | _ \<Rightarrow> raiseM (TypeError ''forward() takes from 4 to 5 positional arguments''))"

text \<open>A computation that leaves the generator alone: its result is the same for every
  generator state, and the state is handed back unchanged.\<close>

definition rng_free :: "'a M \<Rightarrow> bool" where
  "rng_free m = (\<exists>r. \<forall>g. m g = (r, g))"

subsection \<open>Concrete inputs\<close>

text \<open>A small instance of the kernels, for running the forward pass on concrete inputs: a
  tensor holds one number per sample, a layer called with one argument hands it on, a layer
  called with a feature map and an embedding adds them, and arithmetic is elementwise on
  tensors of equal length.\<close>

definition pointwise ::
  "(real \<Rightarrow> real \<Rightarrow> real) \<Rightarrow> real list \<Rightarrow> real list \<Rightarrow> error + real list" where
  "pointwise f a b =
     (if length a = length b then Inr (map (\<lambda>(u, v). f u v) (zip a b))
      else Inl (FrameworkError ''shape mismatch''))"

definition sample_layer :: "real list option list \<Rightarrow> error + real list" where
  "sample_layer args =
     (case args of
        [Some t] \<Rightarrow> Inr t
      | [Some t, Some e] \<Rightarrow> pointwise (+) t e
      | _ \<Rightarrow> Inl (TypeError ''argument is not a tensor''))"

definition sample_ops :: "real list ops" where
  "sample_ops =
     \<lparr>layer_eval = (\<lambda>name l args. sample_layer args),
      layer_train = (\<lambda>name l args g. (sample_layer args, g)),
      tensor_add = pointwise (+),
      tensor_mul = pointwise (*),
      silu = (\<lambda>t. t),
      shape = (\<lambda>t. [length t]),
      mask_to = (\<lambda>keep t. map (\<lambda>b. if b then 1 else 0) keep),
      dropout_train = (\<lambda>t p g. (t, g))\<rparr>"

text \<open>An object with the attributes a forward pass reads, for a model with a class-label
  projection and without an augmentation projection; the same object without the
  class-label projection.\<close>

definition sample_self :: "bool \<Rightarrow> real \<Rightarrow> obj" where
  "sample_self training p =
     [''training'' \<mapsto> VBool training,
      ''label_dropout'' \<mapsto> VFloat p,
      ''dropout'' \<mapsto> VFloat 0.1,
      ''map_noise'' \<mapsto> VLayer (PositionalEmbedding 192),
      ''map_augment'' \<mapsto> VNone,
      ''map_layer0'' \<mapsto> VLayer (Linear 192 768 True Init),
      ''map_layer1'' \<mapsto> VLayer (Linear 768 768 True Init),
      ''map_label'' \<mapsto> VLayer (Linear 10 768 False (Init_label 10)),
      ''enc'' \<mapsto> VModuleDict
         [(''16x16_conv'', Conv2d 2 192 3 Init),
          (''16x16_block0'', UNetBlock 192 192 False True
             \<lparr>emb_channels = 768, channels_per_head = 64, block_dropout = 0.1\<rparr>)],
      ''out'' \<mapsto> VModuleDict [(''linear_in'', Linear 192 2048 True Init_default),
                               (''group_norm'', GroupNorm 2048),
                               (''linear_out'', Linear 2048 2 True Init_default)]]"

definition sample_unconditional :: obj where
  "sample_unconditional = (sample_self False 0)(''map_label'' \<mapsto> VNone)"

definition sample_rng :: rng where
  "sample_rng = (\<lambda>i. 1 / 2)"

subsection \<open>Invariants of the encoder loops\<close>

text \<open>The part of a stage key before its first \<^verbatim>\<open>x\<close>: the resolution as formatted.\<close>

definition key_prefix :: "string \<Rightarrow> string" where
  "key_prefix k = takeWhile (\<lambda>c. c \<noteq> CHR ''x'') k"

text \<open>The stages constructed so far fit each other, and the last one puts out the running
  channel count.\<close>

definition chain_inv :: "enc_state \<Rightarrow> bool" where
  "chain_inv s = (channels_chain (made s)
      \<and> (made s \<noteq> [] \<longrightarrow> layer_out_channels (last (made s)) = cout s))"

text \<open>The shape of an encoder stage: a downsampling block puts out as many channels as it
  takes in, and a residual block puts out \<^verbatim>\<open>model_channels * mult\<close> channels for one of
  the multipliers.\<close>

definition stage_shape :: "config \<Rightarrow> layer \<Rightarrow> bool" where
  "stage_shape cfg l =
     ((is_down l \<longrightarrow> layer_out_channels l = layer_in_channels l)
      \<and> (is_UNetBlock l \<and> \<not> is_down l \<longrightarrow>
           (\<exists>m \<in> set (channel_mult cfg). layer_out_channels l = model_channels cfg * m)))"

text \<open>No key has been assigned twice: the dictionary holds the stages in the order of their
  construction, under keys of the resolutions \<open>R\<close> seen so far.\<close>

definition table_inv :: "int set \<Rightarrow> enc_state \<Rightarrow> bool" where
  "table_inv R s = (values_of (enc s) = made s
      \<and> (\<forall>k \<in> fst ` set (enc s). \<exists>r \<in> R. key_prefix k = str_int r))"

section \<open>Properties\<close>

subsection \<open>What construction writes and builds\<close>

lemma self_init_mapping:
  "name \<notin> {''label_dropout'', ''pool'', ''map_noise'', ''map_augment'', ''map_layer0'',
      ''map_layer1'', ''map_label''} \<Longrightarrow> self (init_mapping cfg st) name = self st name"
  by (simp add: init_mapping_def assign_layer_def build_def setattr_def Let_def)

lemma self_init_encoder:
  "name \<noteq> ''enc'' \<Longrightarrow> self (init_encoder cfg st) name = self st name"
  by (simp add: init_encoder_def setattr_def Let_def)

lemma self_init_pooling:
  "name \<noteq> ''out'' \<Longrightarrow> self (snd (init_pooling cfg st)) name = self st name"
  by (auto simp add: init_pooling_def setattr_def build_def out_setitem_def Let_def
      split: sum.splits val.splits)

lemma built_init_mapping_hd:
  "\<exists>ls. built (init_mapping cfg st) = built st @ PositionalEmbedding (model_channels cfg) # ls"
  by (simp add: init_mapping_def assign_layer_def build_def setattr_def Let_def)

lemma built_init_encoder:
  "built (init_encoder cfg st) = built st @ made (build_encoder cfg)"
  by (simp add: init_encoder_def setattr_def Let_def)

lemma map_label_init_mapping:
  "self (init_mapping cfg st) ''map_label'' =
     Some (if label_dim cfg \<noteq> 0
           then VLayer (Linear (label_dim cfg) (model_channels cfg * channel_mult_emb cfg) False
                          (Init_label (label_dim cfg)))
           else VNone)"
  by (simp add: init_mapping_def assign_layer_def build_def setattr_def Let_def)

lemma map_augment_init_mapping:
  "self (init_mapping cfg st) ''map_augment'' =
     Some (if augment_dim cfg \<noteq> 0
           then VLayer (Linear (augment_dim cfg) (model_channels cfg) False Init_zero)
           else VNone)"
  by (simp add: init_mapping_def assign_layer_def build_def setattr_def Let_def)

lemma map_label_init:
  "self (snd (GuidanceNet_init base cfg)) ''map_label'' =
     Some (if label_dim cfg \<noteq> 0
           then VLayer (Linear (label_dim cfg) (model_channels cfg * channel_mult_emb cfg) False
                          (Init_label (label_dim cfg)))
           else VNone)"
  by (simp add: GuidanceNet_init_def self_init_pooling self_init_encoder map_label_init_mapping)

lemma map_augment_init:
  "self (snd (GuidanceNet_init base cfg)) ''map_augment'' =
     Some (if augment_dim cfg \<noteq> 0
           then VLayer (Linear (augment_dim cfg) (model_channels cfg) False Init_zero)
           else VNone)"
  by (simp add: GuidanceNet_init_def self_init_pooling self_init_encoder map_augment_init_mapping)

lemma enc_init:
  "self (snd (GuidanceNet_init base cfg)) ''enc'' = Some (VModuleDict (enc (build_encoder cfg)))"
  by (simp add: GuidanceNet_init_def self_init_pooling init_encoder_def setattr_def Let_def)

subsection \<open>Construction of the documented example\<close>

text \<open>
  Claim C1 says that constructing a GuidanceNet for a valid configuration and calling it
  returns a batch of shape \<open>(batch_size, out_channels)\<close>. The configuration of the class's
  own docstring example, \<^verbatim>\<open>GuidanceNet(img_resolution=16, in_channels=2, out_channels=2)\<close>,
  does not get that far: the constructor raises AttributeError at line 204, where it reads
  \<^verbatim>\<open>self._feature_size\<close>, so there is no module to call.
\<close>

theorem docstring_example_construction_raises:
  "fst (GuidanceNet_init Module_init (default_config 16 2 2))
     = Some (AttributeError ''_feature_size'')"
  by (simp add: GuidanceNet_init_def init_pooling_def default_config_def getattr_def setattr_def
      self_init_mapping self_init_encoder Module_init_def)

subsection \<open>Unsupported pooling modes\<close>

text \<open>
  Claim C2, as stated: for a pooling mode other than \<^verbatim>\<open>"spatial"\<close> construction fails with
  NotImplementedError before any sub-layer is built. The error is raised, but by the
  \<^verbatim>\<open>else\<close> branch of the pooling section, the last statement of the constructor: with the
  default configuration and \<^verbatim>\<open>pool="avg"\<close>, the constructors of 19 layers have run by then.
\<close>

theorem unsupported_pool_layers_built_first:
  "fst (GuidanceNet_init Module_init ((default_config 16 2 2)\<lparr>pool := ''avg''\<rparr>))
     = Some (NotImplementedError ''Unexpected avg pooling'')
   \<and> length (built (snd (GuidanceNet_init Module_init
                ((default_config 16 2 2)\<lparr>pool := ''avg''\<rparr>)))) = 19"
  by code_simp

text \<open>
  Claim C2, amended: for every configuration whose pooling mode is not \<^verbatim>\<open>"spatial"\<close>,
  construction fails with NotImplementedError; it fails after the mapping layers and every
  encoder stage have been built (the state is the one the encoder section leaves, whose
  first built layer is the positional embedding) and before anything of the pooling head
  exists (\<^verbatim>\<open>self.out\<close> has not been assigned).
\<close>

theorem unsupported_pool_raises_after_encoder:
  assumes "pool cfg \<noteq> ''spatial''"
  shows "fst (GuidanceNet_init base cfg) =
           Some (NotImplementedError (''Unexpected '' @ pool cfg @ '' pooling''))
       \<and> snd (GuidanceNet_init base cfg) =
           init_encoder cfg (init_mapping cfg \<lparr>self = base, built = []\<rparr>)
       \<and> (\<exists>ls. built (snd (GuidanceNet_init base cfg)) =
             PositionalEmbedding (model_channels cfg) # ls @ made (build_encoder cfg))
       \<and> self (snd (GuidanceNet_init base cfg)) ''out'' = base ''out''"
proof -
  obtain ls where "built (init_mapping cfg \<lparr>self = base, built = []\<rparr>)
                     = PositionalEmbedding (model_channels cfg) # ls"
    using built_init_mapping_hd [of cfg "\<lparr>self = base, built = []\<rparr>"] by auto
  then show ?thesis using assms
    by (simp add: GuidanceNet_init_def init_pooling_def built_init_encoder
        self_init_mapping self_init_encoder)
qed

theorem unsupported_pool_raises_after_encoder_witness:
  "pool ((default_config 16 2 2)\<lparr>pool := ''avg''\<rparr>) \<noteq> ''spatial''
   \<and> fst (GuidanceNet_init Module_init ((default_config 16 2 2)\<lparr>pool := ''avg''\<rparr>))
       = Some (NotImplementedError ''Unexpected avg pooling'')"
proof -
  have h: "pool ((default_config 16 2 2)\<lparr>pool := ''avg''\<rparr>) \<noteq> ''spatial''" by simp
  show ?thesis
    using h unsupported_pool_raises_after_encoder [OF h, of Module_init] by simp
qed

subsection \<open>The pooling head\<close>




text \<open>
  Claim C4 says that in spatial pooling mode construction assigns to the pooling head's
  \<^verbatim>\<open>"group_norm"\<close> entry a one-element tuple holding the group-normalization layer. The
  right-hand side of line 205 is that tuple, but the statement does not run: for the
  documented example construction stops at line 204, one statement earlier, and the
  pooling head is left as the empty dictionary of line 203. Nothing has been assigned to
  \<^verbatim>\<open>"group_norm"\<close>, which line 235 of the forward pass calls as a layer.
\<close>

theorem group_norm_entry_not_assigned:
  "fst (GuidanceNet_init Module_init (default_config 16 2 2))
     = Some (AttributeError ''_feature_size'')
   \<and> self (snd (GuidanceNet_init Module_init (default_config 16 2 2))) ''out''
     = Some (VModuleDict [])"
  by (simp add: GuidanceNet_init_def init_pooling_def default_config_def getattr_def setattr_def
      self_init_mapping self_init_encoder Module_init_def)

subsection \<open>Computations that leave the generator alone\<close>

lemma bindM_liftM_Inr: "bindM (liftM (Inr v)) f = f v"
  by (rule ext) (simp add: bindM_def liftM_def)

lemma bindM_returnM: "bindM (returnM v) f = f v"
  by (rule ext) (simp add: bindM_def returnM_def)

lemma rng_free_returnM: "rng_free (returnM v)"
  by (auto simp: rng_free_def returnM_def)

lemma rng_free_raiseM: "rng_free (raiseM e)"
  by (auto simp: rng_free_def raiseM_def)

lemma rng_free_liftM: "rng_free (liftM r)"
  by (auto simp: rng_free_def liftM_def)

lemma rng_free_bindM:
  assumes "rng_free m" and "\<And>v. rng_free (f v)"
  shows "rng_free (bindM m f)"
proof -
  from assms(1) obtain r where r: "\<And>g. m g = (r, g)" by (auto simp: rng_free_def)
  show ?thesis
  proof (cases r)
    case (Inl e)
    with r show ?thesis by (auto simp: rng_free_def bindM_def)
  next
    case (Inr v)
    from assms(2) [of v] obtain r' where "\<And>g. f v g = (r', g)" by (auto simp: rng_free_def)
    with r Inr show ?thesis by (auto simp: rng_free_def bindM_def)
  qed
qed

lemma rng_free_if: "rng_free a \<Longrightarrow> rng_free b \<Longrightarrow> rng_free (if c then a else b)"
  by simp

lemma training_mode_False: "slf ''training'' = Some (VBool False) \<Longrightarrow> \<not> training_mode slf"
  by (simp add: training_mode_def)

lemma rng_free_call_layer:
  "\<not> training_mode slf \<Longrightarrow> rng_free (call_layer ops slf name f args)"
  by (cases f) (simp_all add: call_layer_def rng_free_liftM rng_free_raiseM)

lemma rng_free_fwd_noise:
  "\<not> training_mode slf \<Longrightarrow> rng_free (fwd_noise ops slf n a)"
  unfolding fwd_noise_def
  by (intro rng_free_bindM rng_free_if rng_free_liftM rng_free_returnM rng_free_call_layer)

lemma rng_free_label_input:
  "slf ''training'' = Some (VBool False) \<Longrightarrow> rng_free (label_input ops slf x c)"
  by (simp add: label_input_def getattr_def liftM_def bindM_def rng_free_def returnM_def)

lemma rng_free_fwd_label:
  assumes "slf ''training'' = Some (VBool False)"
  shows "rng_free (fwd_label ops slf x c emb)"
  unfolding fwd_label_def label_contribution_def
  by (intro rng_free_bindM rng_free_if rng_free_liftM rng_free_returnM rng_free_call_layer
      rng_free_label_input training_mode_False assms)

lemma rng_free_fwd_encoder:
  "\<not> training_mode slf \<Longrightarrow> rng_free (fwd_encoder ops slf d x emb skips)"
proof (induction d arbitrary: x skips)
  case Nil
  show ?case by (simp add: rng_free_returnM)
next
  case (Cons kb d)
  obtain k b where kb: "kb = (k, b)" by (cases kb)
  show ?case unfolding kb fwd_encoder.simps
    by (intro rng_free_bindM rng_free_if rng_free_call_layer Cons.prems Cons.IH)
qed

lemma rng_free_F_dropout: "rng_free (F_dropout ops t p (VBool False))"
  by (simp add: F_dropout_def rng_free_raiseM rng_free_returnM split: option.splits)

lemma rng_free_fwd_pooling:
  assumes "slf ''training'' = Some (VBool False)"
  shows "rng_free (fwd_pooling ops slf x)"
proof -
  have nt: "\<not> training_mode slf" using assms by (rule training_mode_False)
  have tr: "getattr slf ''training'' = Inr (VBool False)" using assms by (simp add: getattr_def)
  have d: "rng_free (bindM (liftM (getattr slf ''training''))
             (\<lambda>tr. bindM (F_dropout ops t p tr) k))"
    if "\<And>v. rng_free (k v)" for t p and k :: "'a \<Rightarrow> 'a M"
    unfolding tr bindM_liftM_Inr
    by (intro rng_free_bindM rng_free_F_dropout that)
  show ?thesis
    unfolding fwd_pooling_def
    by (intro rng_free_bindM rng_free_liftM rng_free_call_layer nt d)
qed

subsection \<open>Evaluation mode\<close>

text \<open>
  Claim C5: in evaluation mode (the \<^verbatim>\<open>training\<close> flag is false) two forward calls with the
  same inputs and parameters give the same output. The label-dropout mask is not drawn,
  the dropout of the pooling head hands its input on, and no sub-layer draws: the result
  of the forward pass is the same for every state of the random generator, and the
  generator is left as it was.
\<close>

theorem eval_mode_deterministic:
  assumes "slf ''training'' = Some (VBool False)"
  shows "fst (forward ops slf x n c a g1) = fst (forward ops slf x n c a g2)
       \<and> snd (forward ops slf x n c a g1) = g1"
proof -
  have nt: "\<not> training_mode slf" using assms by (rule training_mode_False)
  have "rng_free (forward ops slf x n c a)"
    unfolding forward_def
    by (intro rng_free_bindM rng_free_liftM rng_free_fwd_noise rng_free_fwd_label
        rng_free_fwd_encoder rng_free_fwd_pooling nt assms)
      (simp add: split_def rng_free_fwd_pooling assms)
  then show ?thesis by (auto simp: rng_free_def)
qed

lemmas fwd_defs = forward_def fwd_noise_def fwd_label_def label_contribution_def label_input_def
  fwd_pooling_def F_dropout_def out_layer_def module_dict_def getitem_def getattr_def
  call_layer_def training_mode_def bindM_def liftM_def returnM_def raiseM_def
  shape0_def keep_mask_def apply_mask_def rand_def

lemmas sample_defs = sample_ops_def sample_self_def sample_unconditional_def sample_rng_def
  pointwise_def sample_layer_def

theorem eval_mode_deterministic_witness:
  "sample_self False 0 ''training'' = Some (VBool False)
   \<and> fst (forward sample_ops (sample_self False 0)
            (Some [1, 2]) (Some [3, 4]) (Some [5, 6]) None sample_rng)
     = fst (forward sample_ops (sample_self False 0)
            (Some [1, 2]) (Some [3, 4]) (Some [5, 6]) None (\<lambda>i. 0))
   \<and> fst (forward sample_ops (sample_self False 0)
            (Some [1, 2]) (Some [3, 4]) (Some [5, 6]) None sample_rng) = Inr [9, 12]"
proof -
  have h: "sample_self False 0 ''training'' = Some (VBool False)"
    by (simp add: sample_self_def)
  have v: "fst (forward sample_ops (sample_self False 0)
             (Some [1, 2]) (Some [3, 4]) (Some [5, 6]) None sample_rng) = Inr [9, 12]"
    by (simp add: fwd_defs sample_defs)
  show ?thesis
    using h v eval_mode_deterministic [of "sample_self False 0" sample_ops "Some [1, 2]"
        "Some [3, 4]" "Some [5, 6]" None sample_rng "\<lambda>i. 0"]
    by blast
qed

subsection \<open>Label arguments without a projection\<close>

lemma fwd_label_unconditional:
  "slf ''map_label'' = Some VNone \<Longrightarrow> fwd_label ops slf x c emb = returnM (silu ops emb)"
  by (simp add: fwd_label_def getattr_def bindM_liftM_Inr bindM_returnM)

lemma fwd_noise_no_augment:
  "slf ''map_augment'' = Some VNone \<Longrightarrow> fwd_noise ops slf n a = fwd_noise ops slf n None"
  by (simp add: fwd_noise_def getattr_def bindM_liftM_Inr)

text \<open>
  Claim C6: for a model constructed with \<^verbatim>\<open>label_dim = 0\<close> the output does not depend on
  the class labels. Construction binds \<^verbatim>\<open>map_label\<close> to \<^verbatim>\<open>None\<close>; on any object whose
  \<^verbatim>\<open>map_label\<close> is the one construction binds, two forward calls that differ only in the
  class labels give the same result (the same output or the same exception) and leave the
  generator in the same state.
\<close>

theorem unconditional_ignores_class_labels:
  assumes "label_dim cfg = 0"
    and "slf ''map_label'' = self (snd (GuidanceNet_init base cfg)) ''map_label''"
  shows "forward ops slf x n c1 a g = forward ops slf x n c2 a g"
proof -
  have "slf ''map_label'' = Some VNone"
    using assms by (simp add: map_label_init)
  then show ?thesis
    by (simp add: forward_def fwd_label_unconditional)
qed

theorem unconditional_ignores_class_labels_witness:
  "label_dim (default_config 16 2 2) = 0
   \<and> sample_unconditional ''map_label''
     = self (snd (GuidanceNet_init Module_init (default_config 16 2 2))) ''map_label''
   \<and> forward sample_ops sample_unconditional
        (Some [1, 2]) (Some [3, 4]) (Some [5, 6]) None sample_rng
     = forward sample_ops sample_unconditional (Some [1, 2]) (Some [3, 4]) None None sample_rng"
proof -
  have h1: "label_dim (default_config 16 2 2) = 0" by (simp add: default_config_def)
  have h2: "sample_unconditional ''map_label''
              = self (snd (GuidanceNet_init Module_init (default_config 16 2 2))) ''map_label''"
    by (simp add: map_label_init h1 sample_unconditional_def)
  show ?thesis
    using h1 h2 unconditional_ignores_class_labels
        [of "default_config 16 2 2" sample_unconditional Module_init sample_ops
        "Some [1, 2]" "Some [3, 4]" "Some [5, 6]" None sample_rng None]
    by blast
qed

text \<open>
  Claim C7: for a model constructed with \<^verbatim>\<open>augment_dim = 0\<close> the output does not depend on
  the augmentation labels. Construction binds \<^verbatim>\<open>map_augment\<close> to \<^verbatim>\<open>None\<close>; on any object
  whose \<^verbatim>\<open>map_augment\<close> is the one construction binds, two forward calls that differ only in
  the augmentation labels give the same result and leave the generator in the same state.
\<close>

theorem no_augment_ignores_augment_labels:
  assumes "augment_dim cfg = 0"
    and "slf ''map_augment'' = self (snd (GuidanceNet_init base cfg)) ''map_augment''"
  shows "forward ops slf x n c a1 g = forward ops slf x n c a2 g"
proof -
  have "slf ''map_augment'' = Some VNone"
    using assms by (simp add: map_augment_init)
  then have "fwd_noise ops slf n a1 = fwd_noise ops slf n a2"
    using fwd_noise_no_augment [of slf ops n a1] fwd_noise_no_augment [of slf ops n a2] by simp
  then show ?thesis
    by (simp add: forward_def)
qed

theorem no_augment_ignores_augment_labels_witness:
  "augment_dim (default_config 16 2 2) = 0
   \<and> sample_self False 0 ''map_augment''
     = self (snd (GuidanceNet_init Module_init (default_config 16 2 2))) ''map_augment''
   \<and> forward sample_ops (sample_self False 0)
        (Some [1, 2]) (Some [3, 4]) (Some [5, 6]) (Some [7, 8]) sample_rng
     = forward sample_ops (sample_self False 0)
        (Some [1, 2]) (Some [3, 4]) (Some [5, 6]) None sample_rng"
proof -
  have h1: "augment_dim (default_config 16 2 2) = 0" by (simp add: default_config_def)
  have h2: "sample_self False 0 ''map_augment''
              = self (snd (GuidanceNet_init Module_init (default_config 16 2 2))) ''map_augment''"
    by (simp add: map_augment_init h1 sample_self_def)
  show ?thesis
    using h1 h2 no_augment_ignores_augment_labels
        [of "default_config 16 2 2" "sample_self False 0" Module_init sample_ops
        "Some [1, 2]" "Some [3, 4]" "Some [5, 6]" "Some [7, 8]" sample_rng None]
    by blast
qed

subsection \<open>Full label dropout\<close>

lemma keep_mask_one:
  assumes "\<forall>i. 0 \<le> g i \<and> g i < 1"
  shows "keep_mask (fst (rand n g)) (VFloat 1) = Inr (replicate n False)"
proof -
  have "map (\<lambda>u. 1 \<le> u) (map g [0..<n]) = replicate n False"
    using assms by (intro replicate_eqI) (auto simp: not_le [symmetric] simp del: not_le)
  then show ?thesis by (simp add: keep_mask_def rand_def)
qed

lemma label_input_dropped:
  assumes tr: "slf ''training'' = Some (VBool True)"
    and ld: "slf ''label_dropout'' = Some (VFloat 1)"
    and draws: "\<forall>i. 0 \<le> g i \<and> g i < 1"
    and sh: "shape0 ops x = Inr n"
  shows "label_input ops slf x c g =
           (case apply_mask ops (replicate n False) c of
              Inl e \<Rightarrow> Inl e | Inr t \<Rightarrow> Inr (Some t), snd (rand n g))"
  using keep_mask_one [OF draws, of n]
  by (simp add: label_input_def getattr_def tr ld sh bindM_def liftM_def returnM_def
      split: sum.splits)

text \<open>
  Claim C8: for a model with \<^verbatim>\<open>label_dim > 0\<close>, in training mode with
  \<^verbatim>\<open>label_dropout = 1.0\<close>, the dropout mask is zero for every sample of the batch, whatever
  the uniform draws in \<open>[0, 1)\<close> are, so the class-label contribution added to the embedding
  is zero. The mask is computed here; the arithmetic on it belongs to the tensor framework,
  of which two facts are used: a product with the all-zero mask is zero, and the bias-free
  linear layer that construction binds to \<^verbatim>\<open>map_label\<close> maps zero to zero. \<open>zero\<close> is the
  property of being a zero tensor.
\<close>

theorem full_label_dropout_zero_contribution:
  fixes zero :: "'t \<Rightarrow> bool"
  assumes dim: "0 < label_dim cfg"
    and ml: "slf ''map_label'' = self (snd (GuidanceNet_init base cfg)) ''map_label''"
    and tr: "slf ''training'' = Some (VBool True)"
    and ld: "slf ''label_dropout'' = Some (VFloat 1)"
    and draws: "\<forall>i. 0 \<le> g i \<and> g i < 1"
    and sh: "shape0 ops x = Inr n"
    and mul0: "\<forall>t r. tensor_mul ops t (mask_to ops (replicate n False) t) = Inr r \<longrightarrow> zero r"
    and lin0: "\<forall>i j ini t r g1 g2. zero t \<longrightarrow>
                 layer_train ops ''map_label'' (Linear i j False ini) [Some t] g1 = (Inr r, g2)
                 \<longrightarrow> zero r"
  shows "keep_mask (fst (rand n g)) (VFloat 1) = Inr (replicate n False)
       \<and> (\<exists>l. slf ''map_label'' = Some (VLayer l)
            \<and> (\<forall>r. fst (label_contribution ops slf (VLayer l) x c g) = Inr r \<longrightarrow> zero r))"
proof -
  let ?l = "Linear (label_dim cfg) (model_channels cfg * channel_mult_emb cfg) False
              (Init_label (label_dim cfg))"
  have l: "slf ''map_label'' = Some (VLayer ?l)"
    using dim ml by (simp add: map_label_init)
  have tm: "training_mode slf" using tr by (simp add: training_mode_def)
  have "zero r" if r: "fst (label_contribution ops slf (VLayer ?l) x c g) = Inr r" for r
  proof (cases "apply_mask ops (replicate n False) c")
    case (Inl e)
    with r show ?thesis
      by (simp add: label_contribution_def bindM_def label_input_dropped [OF tr ld draws sh])
  next
    case (Inr t)
    then have zt: "zero t"
      using mul0 by (auto simp: apply_mask_def split: option.splits)
    obtain res g2
      where lt: "layer_train ops ''map_label'' ?l [Some t] (snd (rand n g)) = (res, g2)"
      by (cases "layer_train ops ''map_label'' ?l [Some t] (snd (rand n g))")
    from r Inr lt have "res = Inr r"
      by (simp add: label_contribution_def bindM_def label_input_dropped [OF tr ld draws sh]
          call_layer_def tm)
    with lt zt lin0 show ?thesis by blast
  qed
  with l keep_mask_one [OF draws] show ?thesis by blast
qed

lemma sample_mul_zero:
  "tensor_mul sample_ops t (mask_to sample_ops (replicate n False) t) = Inr r
     \<Longrightarrow> \<forall>v\<in>set r. v = 0"
  by (auto simp: sample_ops_def pointwise_def set_zip split: if_splits)

lemma sample_layer_zero:
  "\<forall>v\<in>set t. v = 0 \<Longrightarrow> layer_train sample_ops name l [Some t] g1 = (Inr r, g2)
     \<Longrightarrow> \<forall>v\<in>set r. v = 0"
  by (auto simp: sample_ops_def sample_layer_def)

theorem full_label_dropout_zero_contribution_witness:
  "0 < label_dim ((default_config 16 2 2)\<lparr>label_dim := 10\<rparr>)
   \<and> sample_self True 1 ''training'' = Some (VBool True)
   \<and> sample_self True 1 ''label_dropout'' = Some (VFloat 1)
   \<and> shape0 sample_ops (Some [3, 4]) = Inr 2
   \<and> keep_mask (fst (rand 2 sample_rng)) (VFloat 1) = Inr [False, False]
   \<and> fst (label_contribution sample_ops (sample_self True 1)
            (VLayer (Linear 10 768 False (Init_label 10))) (Some [3, 4]) (Some [5, 6]) sample_rng)
       = Inr [0, 0]"
proof -
  let ?cfg = "(default_config 16 2 2)\<lparr>label_dim := 10\<rparr>"
  have dim: "0 < label_dim ?cfg" by simp
  have ml: "sample_self True 1 ''map_label''
              = self (snd (GuidanceNet_init Module_init ?cfg)) ''map_label''"
    by (simp add: map_label_init sample_self_def default_config_def)
  have tr: "sample_self True 1 ''training'' = Some (VBool True)" by (simp add: sample_self_def)
  have ld: "sample_self True 1 ''label_dropout'' = Some (VFloat 1)"
    by (simp add: sample_self_def)
  have draws: "\<forall>i. 0 \<le> sample_rng i \<and> sample_rng i < 1" by (simp add: sample_rng_def)
  have sh: "shape0 sample_ops (Some [3, 4]) = Inr 2" by (simp add: shape0_def sample_ops_def)
  have mul0: "\<forall>t r. tensor_mul sample_ops t (mask_to sample_ops (replicate 2 False) t) = Inr r
                \<longrightarrow> (\<forall>v\<in>set r. v = 0)"
    using sample_mul_zero by blast
  have lin0: "\<forall>i j ini t r g1 g2. (\<forall>v\<in>set t. v = 0) \<longrightarrow>
                 layer_train sample_ops ''map_label'' (Linear i j False ini) [Some t] g1
                   = (Inr r, g2)
                 \<longrightarrow> (\<forall>v\<in>set r. v = 0)"
    using sample_layer_zero by blast
  have v: "fst (label_contribution sample_ops (sample_self True 1)
            (VLayer (Linear 10 768 False (Init_label 10))) (Some [3, 4]) (Some [5, 6]) sample_rng)
       = Inr [0, 0]"
    by (simp add: fwd_defs sample_defs)
  have k: "replicate 2 False = [False, False]" by (simp add: numeral_2_eq_2)
  show ?thesis
    using tr ld sh v k
      full_label_dropout_zero_contribution
        [where zero = "\<lambda>t. \<forall>v\<in>set t. v = 0" and cfg = ?cfg and slf = "sample_self True 1"
            and base = Module_init and g = sample_rng and ops = sample_ops
            and x = "Some [3, 4]" and n = 2 and c = "Some [5, 6]"]
      dim ml draws mul0 lin0
    by simp
qed

subsection \<open>The arguments of a forward call\<close>

text \<open>
  Claim C9, as stated: both label batches are optional, and a forward call that supplies
  only the image batch and the noise-level batch succeeds for an unconditional model. Only
  \<^verbatim>\<open>augment_labels\<close> has a default; the call without class labels is rejected when its
  arguments are bound, also for an object without a class-label projection.
\<close>

theorem call_without_class_labels_raises:
  "fst (call_forward sample_ops sample_unconditional [Some [1, 2], Some [3, 4]] sample_rng)
     = Inl (TypeError ''forward() missing 1 required positional argument: class_labels'')"
  by (simp add: call_forward_def raiseM_def)

text \<open>
  Claim C9, amended: the forward call accepts the augmentation-label batch as an optional
  argument (omitting it is passing \<^verbatim>\<open>None\<close>) and requires the class-label batch: a call
  that supplies only the image batch and the noise-level batch is rejected with TypeError
  before the body runs. For an unconditional model the class-label argument has to be
  supplied but its value is ignored, so \<^verbatim>\<open>None\<close> does.
\<close>

theorem forward_call_binding:
  "call_forward ops slf [x, n] g =
     (Inl (TypeError ''forward() missing 1 required positional argument: class_labels''), g)
   \<and> call_forward ops slf [x, n, c] = forward ops slf x n c None
   \<and> call_forward ops slf [x, n, c, a] = forward ops slf x n c a
   \<and> (slf ''map_label'' = Some VNone \<longrightarrow>
        call_forward ops slf [x, n, c] = call_forward ops slf [x, n, None])"
proof -
  have "slf ''map_label'' = Some VNone \<Longrightarrow>
        forward ops slf x n c None = forward ops slf x n None None"
    by (rule ext) (simp add: forward_def fwd_label_unconditional)
  then show ?thesis
    by (simp add: call_forward_def raiseM_def)
qed

theorem forward_call_binding_witness:
  "sample_unconditional ''map_label'' = Some VNone
   \<and> call_forward sample_ops sample_unconditional [Some [1, 2], Some [3, 4], Some [5, 6]]
     = call_forward sample_ops sample_unconditional [Some [1, 2], Some [3, 4], None]
   \<and> fst (call_forward sample_ops sample_unconditional [Some [1, 2], Some [3, 4], None]
           sample_rng) = Inr [4, 6]"
proof -
  have h: "sample_unconditional ''map_label'' = Some VNone"
    by (simp add: sample_unconditional_def)
  have v: "fst (call_forward sample_ops sample_unconditional [Some [1, 2], Some [3, 4], None]
             sample_rng) = Inr [4, 6]"
    by (simp add: call_forward_def fwd_defs sample_defs)
  show ?thesis
    using h v forward_call_binding [of sample_ops sample_unconditional "Some [1, 2]"
        "Some [3, 4]" sample_rng "Some [5, 6]"]
    by blast
qed

subsection \<open>Stage keys\<close>

lemma digit_chars_nth_inj:
  "a < 10 \<Longrightarrow> b < 10 \<Longrightarrow> digit_chars ! a = digit_chars ! b \<Longrightarrow> a = b"
proof -
  have d: "distinct digit_chars" by (simp add: digit_chars_def)
  have l: "length digit_chars = 10" by (simp add: digit_chars_def)
  show "a < 10 \<Longrightarrow> b < 10 \<Longrightarrow> digit_chars ! a = digit_chars ! b \<Longrightarrow> a = b"
    using d l by (simp add: nth_eq_iff_index_eq)
qed

lemma digit_chars_nth_mem: "a < 10 \<Longrightarrow> digit_chars ! a \<in> set digit_chars"
proof -
  assume "a < 10"
  moreover have "length digit_chars = 10" by (simp add: digit_chars_def)
  ultimately show ?thesis by (simp only: nth_mem)
qed

lemma str_nat_chars: "set (str_nat n) \<subseteq> set digit_chars"
proof (induction n rule: str_nat.induct)
  case (1 n)
  show ?case
  proof (cases "n < 10")
    case True
    then show ?thesis using digit_chars_nth_mem [of n] by (simp add: str_nat.simps [of n])
  next
    case False
    then show ?thesis
      using "1.IH" digit_chars_nth_mem [of "n mod 10"] by (simp add: str_nat.simps [of n])
  qed
qed

lemma str_nat_nonempty: "str_nat n \<noteq> []"
  by (simp add: str_nat.simps [of n])

lemma str_nat_inj: "str_nat n = str_nat m \<Longrightarrow> n = m"
proof (induction n arbitrary: m rule: str_nat.induct)
  case (1 n)
  show ?case
  proof (cases "n < 10")
    case n: True
    show ?thesis
    proof (cases "m < 10")
      case True
      with n "1.prems" show ?thesis
        by (simp add: str_nat.simps [of n] str_nat.simps [of m] digit_chars_nth_inj)
    next
      case False
      with n "1.prems" str_nat_nonempty [of "m div 10"] show ?thesis
        by (simp add: str_nat.simps [of n] str_nat.simps [of m])
    qed
  next
    case n: False
    show ?thesis
    proof (cases "m < 10")
      case True
      with n "1.prems" str_nat_nonempty [of "n div 10"] show ?thesis
        by (simp add: str_nat.simps [of n] str_nat.simps [of m])
    next
      case False
      with n "1.prems" have e: "str_nat (n div 10) = str_nat (m div 10)"
        and d: "digit_chars ! (n mod 10) = digit_chars ! (m mod 10)"
        by (simp_all add: str_nat.simps [of n] str_nat.simps [of m])
      from "1.IH" [OF n e] have "n div 10 = m div 10" .
      moreover from d have "n mod 10 = m mod 10" by (simp add: digit_chars_nth_inj)
      ultimately show ?thesis by (metis div_mult_mod_eq)
    qed
  qed
qed

lemma str_nat_no_minus: "CHR ''-'' \<notin> set (str_nat n)"
  using str_nat_chars [of n] by (auto simp: digit_chars_def)

lemma str_nat_no_x: "CHR ''x'' \<notin> set (str_nat n)"
  using str_nat_chars [of n] by (auto simp: digit_chars_def)

lemma str_int_no_x: "CHR ''x'' \<notin> set (str_int i)"
  by (simp add: str_int_def str_nat_no_x)

lemma str_int_inj: "str_int i = str_int j \<Longrightarrow> i = j"
proof -
  assume e: "str_int i = str_int j"
  have no_sign: "str_nat n \<noteq> CHR ''-'' # s" for n s
    using str_nat_no_minus [of n] by auto
  show ?thesis
  proof (cases "i < 0")
    case i: True
    show ?thesis
    proof (cases "j < 0")
      case True
      with i e have "nat (- i) = nat (- j)" by (auto simp: str_int_def dest: str_nat_inj)
      with i True show ?thesis by simp
    next
      case False
      with i e no_sign [of "nat j" "str_nat (nat (- i))"] show ?thesis
        by (simp add: str_int_def)
    qed
  next
    case i: False
    show ?thesis
    proof (cases "j < 0")
      case True
      with i e no_sign [of "nat i" "str_nat (nat (- j))"] show ?thesis
        by (simp add: str_int_def)
    next
      case False
      with i e have "nat i = nat j" by (auto simp: str_int_def dest: str_nat_inj)
      with i False show ?thesis by simp
    qed
  qed
qed

lemma key_prefix_res: "key_prefix (str_int r @ CHR ''x'' # rest) = str_int r"
proof -
  have "\<And>c. c \<in> set (str_int r) \<Longrightarrow> c \<noteq> CHR ''x''"
    using str_int_no_x [of r] by auto
  then show ?thesis by (simp add: key_prefix_def takeWhile_append2)
qed

lemma key_prefix_conv: "key_prefix (key_conv r) = str_int r"
  using key_prefix_res [of r] by (simp add: key_conv_def)

lemma key_prefix_down: "key_prefix (key_down r) = str_int r"
  using key_prefix_res [of r] by (simp add: key_down_def)

lemma key_prefix_block: "key_prefix (key_block r i) = str_int r"
  using key_prefix_res [of r] by (simp add: key_block_def)

lemma key_block_inj: "key_block r i = key_block r j \<Longrightarrow> i = j"
  by (simp add: key_block_def str_nat_inj)

lemma key_conv_not_block: "key_conv r \<noteq> key_block r i"
  by (simp add: key_conv_def key_block_def)

lemma key_down_not_block: "key_down r \<noteq> key_block r i"
  by (simp add: key_down_def key_block_def)

subsection \<open>The encoder stage table\<close>

lemma channels_chain_snoc:
  "channels_chain (ls @ [l]) =
     (channels_chain ls \<and> (ls \<noteq> [] \<longrightarrow> layer_out_channels (last ls) = layer_in_channels l))"
  by (induction ls rule: channels_chain.induct) auto


lemma chain_inv_put:
  "chain_inv s \<Longrightarrow> layer_in_channels l = cout s \<Longrightarrow> layer_out_channels l = c
     \<Longrightarrow> chain_inv (enc_put k l c s)"
  by (simp add: chain_inv_def enc_put_def channels_chain_snoc)

lemma chain_inv_blocks: "chain_inv s \<Longrightarrow> chain_inv (enc_blocks cfg res mult idxs s)"
  by (induction idxs arbitrary: s) (simp_all add: chain_inv_put Let_def)

lemma chain_inv_level: "chain_inv s \<Longrightarrow> chain_inv (enc_level cfg level mult s)"
  by (simp add: enc_level_def Let_def chain_inv_blocks chain_inv_put)

lemma chain_inv_levels: "chain_inv s \<Longrightarrow> chain_inv (enc_levels cfg lms s)"
  by (induction lms arbitrary: s) (auto simp: chain_inv_level)

lemma made_chain: "channels_chain (made (build_encoder cfg))"
proof -
  have "chain_inv \<lparr>cout = in_channels cfg, enc = [], made = []\<rparr>"
    by (simp add: chain_inv_def)
  then show ?thesis
    unfolding build_encoder_def by (blast dest: chain_inv_levels [THEN chain_inv_def [THEN iffD1]])
qed


lemma setitem_fresh: "k \<notin> fst ` set d \<Longrightarrow> setitem d k v = d @ [(k, v)]"
  by (induction d) auto

lemma keys_setitem: "fst ` set (setitem d k v) = insert k (fst ` set d)"
proof (induction d)
  case Nil show ?case by simp
next
  case (Cons p d)
  obtain k' v' where p: "p = (k', v')" by (cases p)
  show ?case
  proof (cases "k' = k")
    case True then show ?thesis by (auto simp: p)
  next
    case False
    have "fst ` set (setitem (p # d) k v) = insert k' (fst ` set (setitem d k v))"
      using False by (simp add: p)
    also have "\<dots> = insert k' (insert k (fst ` set d))" by (simp only: Cons.IH)
    also have "\<dots> = insert k (fst ` set (p # d))" by (auto simp: p)
    finally show ?thesis .
  qed
qed

lemma keys_blocks:
  "fst ` set (enc (enc_blocks cfg r mult idxs s)) = fst ` set (enc s) \<union> key_block r ` set idxs"
proof (induction idxs arbitrary: s)
  case Nil show ?case by simp
next
  case (Cons i idxs)
  show ?case by (simp add: Cons.IH Let_def enc_put_def keys_setitem)
qed

lemma values_blocks:
  assumes "values_of (enc s) = made s" "distinct idxs"
    and "\<forall>i \<in> set idxs. key_block r i \<notin> fst ` set (enc s)"
  shows "values_of (enc (enc_blocks cfg r mult idxs s)) = made (enc_blocks cfg r mult idxs s)"
  using assms
proof (induction idxs arbitrary: s)
  case Nil then show ?case by simp
next
  case (Cons i idxs)
  let ?l = "UNetBlock (cout s) (model_channels cfg * mult) False (r \<in> set (attn_resolutions cfg)) (kwargs_of cfg)"
  let ?s = "enc_put (key_block r i) ?l (model_channels cfg * mult) s"
  from Cons.prems have fresh: "key_block r i \<notin> fst ` set (enc s)" by simp
  have v: "values_of (enc ?s) = made ?s"
    using Cons.prems(1) fresh by (simp add: enc_put_def setitem_fresh values_of_def)
  have k: "fst ` set (enc ?s) = insert (key_block r i) (fst ` set (enc s))"
    using fresh by (simp add: enc_put_def setitem_fresh)
  have "\<forall>j \<in> set idxs. key_block r j \<notin> fst ` set (enc ?s)"
    using Cons.prems(2,3) k by (auto dest: key_block_inj)
  with Cons.IH [OF v] Cons.prems(2) show ?case by (simp add: Let_def)
qed

lemma table_inv_level:
  assumes "table_inv R s" "img_resolution cfg div 2 ^ level \<notin> R"
  shows "table_inv (insert (img_resolution cfg div 2 ^ level) R) (enc_level cfg level mult s)"
proof -
  let ?r = "img_resolution cfg div 2 ^ level"
  have pre: "\<forall>k \<in> fst ` set (enc s). key_prefix k \<noteq> str_int ?r"
    using assms unfolding table_inv_def by (metis str_int_inj)
  have vals: "values_of (enc s) = made s" using assms(1) by (simp add: table_inv_def)
  define k0 where "k0 = (if level = 0 then key_conv ?r else key_down ?r)"
  have k0p: "key_prefix k0 = str_int ?r" by (simp add: k0_def key_prefix_conv key_prefix_down)
  have k0b: "k0 \<noteq> key_block ?r i" for i
    by (simp add: k0_def key_conv_not_block key_down_not_block)
  have k0f: "k0 \<notin> fst ` set (enc s)" using pre k0p by auto
  define s1 where "s1 = (if level = 0
                then (let cin = cout s;
                          cout' = model_channels cfg * mult
                      in enc_put (key_conv ?r) (Conv2d cin cout' 3 Init) cout' s)
                else enc_put (key_down ?r)
                       (UNetBlock (cout s) (cout s) True False (kwargs_of cfg)) (cout s) s)"
  have e0: "enc_level cfg level mult s = enc_blocks cfg ?r mult [0..<nat (num_blocks cfg)] s1"
    by (simp add: enc_level_def s1_def Let_def)
  obtain l c where s1: "s1 = enc_put k0 l c s"
    by (cases "level = 0") (simp_all add: s1_def k0_def Let_def)
  let ?s1 = "enc_put k0 l c s"
  have e: "enc_level cfg level mult s = enc_blocks cfg ?r mult [0..<nat (num_blocks cfg)] ?s1"
    using e0 s1 by simp
  have v1: "values_of (enc ?s1) = made ?s1"
    using vals k0f by (simp add: enc_put_def setitem_fresh values_of_def)
  have keys1: "fst ` set (enc ?s1) = insert k0 (fst ` set (enc s))"
    using k0f by (simp add: enc_put_def setitem_fresh)
  have fresh1: "\<forall>i \<in> set [0..<nat (num_blocks cfg)]. key_block ?r i \<notin> fst ` set (enc ?s1)"
  proof -
    have "key_block ?r i \<notin> fst ` set (enc s)" for i
      using pre key_prefix_block [of ?r i] by blast
    with keys1 k0b show ?thesis by (metis insert_iff)
  qed
  have "values_of (enc (enc_level cfg level mult s)) = made (enc_level cfg level mult s)"
    unfolding e by (rule values_blocks [OF v1 _ fresh1]) simp
  moreover have "\<forall>k \<in> fst ` set (enc (enc_level cfg level mult s)).
      \<exists>r \<in> insert ?r R. key_prefix k = str_int r"
    unfolding e keys_blocks keys1 using assms(1) k0p
    by (auto simp: table_inv_def key_prefix_block)
  ultimately show ?thesis by (simp add: table_inv_def)
qed

lemma table_inv_levels:
  assumes "table_inv R s"
    and "distinct (map (\<lambda>(level, mult). img_resolution cfg div 2 ^ level) lms)"
    and "\<forall>(level, mult) \<in> set lms. img_resolution cfg div 2 ^ level \<notin> R"
  shows "\<exists>R'. table_inv R' (enc_levels cfg lms s)"
  using assms
proof (induction lms arbitrary: R s)
  case Nil then show ?case by auto
next
  case (Cons lm lms)
  obtain level mult where lm: "lm = (level, mult)" by (cases lm)
  let ?r = "img_resolution cfg div 2 ^ level"
  have 1: "table_inv (insert ?r R) (enc_level cfg level mult s)"
    using Cons.prems lm by (intro table_inv_level) auto
  have 2: "distinct (map (\<lambda>(level, mult). img_resolution cfg div 2 ^ level) lms)"
    using Cons.prems(2) by simp
  have 3: "\<forall>(level, mult) \<in> set lms. img_resolution cfg div 2 ^ level \<notin> insert ?r R"
    using Cons.prems(2,3) lm by (auto simp: image_iff)
  from Cons.IH [OF 1 2 3] show ?case by (simp add: lm)
qed

lemma enumerate_resolutions:
  "map (\<lambda>(level, mult). img_resolution cfg div 2 ^ level) (enumerate_list (channel_mult cfg))
     = level_resolutions cfg"
proof -
  have "map (\<lambda>(level, mult). img_resolution cfg div 2 ^ level) zs
          = map (\<lambda>level. img_resolution cfg div 2 ^ level) (map fst zs)"
    for zs :: "(nat \<times> int) list"
    by (simp add: case_prod_unfold)
  then show ?thesis
    by (simp add: enumerate_list_def level_resolutions_def del: map_map)
qed

lemma made_blocks_grows: "\<exists>ls. made (enc_blocks cfg r m idxs s) = made s @ ls"
proof (induction idxs arbitrary: s)
  case Nil show ?case by simp
next
  case (Cons i idxs)
  let ?s = "enc_put (key_block r i)
              (UNetBlock (cout s) (model_channels cfg * m) False (r \<in> set (attn_resolutions cfg)) (kwargs_of cfg))
              (model_channels cfg * m) s"
  from Cons.IH [of ?s] obtain ls where "made (enc_blocks cfg r m idxs ?s) = made ?s @ ls" ..
  then show ?case by (simp add: Let_def enc_put_def)
qed

lemma made_level_grows: "\<exists>ls. made (enc_level cfg level m s) = made s @ ls"
proof -
  define s1 where "s1 = (if level = 0
                then (let cin = cout s;
                          cout' = model_channels cfg * m
                      in enc_put (key_conv (img_resolution cfg div 2 ^ level)) (Conv2d cin cout' 3 Init) cout' s)
                else enc_put (key_down (img_resolution cfg div 2 ^ level))
                       (UNetBlock (cout s) (cout s) True False (kwargs_of cfg)) (cout s) s)"
  have "\<exists>ls. made s1 = made s @ ls" by (simp add: s1_def enc_put_def Let_def)
  moreover have "\<exists>ls. made (enc_blocks cfg (img_resolution cfg div 2 ^ level) m [0..<nat (num_blocks cfg)] s1) = made s1 @ ls"
    by (rule made_blocks_grows)
  ultimately show ?thesis by (auto simp add: enc_level_def s1_def Let_def)
qed

lemma made_levels_grows: "\<exists>ls. made (enc_levels cfg lms s) = made s @ ls"
proof (induction lms arbitrary: s)
  case Nil show ?case by simp
next
  case (Cons lm lms)
  obtain level m where lm: "lm = (level, m)" by (cases lm)
  from made_level_grows [of cfg level m s] obtain ls1 where 1: "made (enc_level cfg level m s) = made s @ ls1" ..
  from Cons.IH [of "enc_level cfg level m s"] obtain ls2
    where "made (enc_levels cfg lms (enc_level cfg level m s)) = made (enc_level cfg level m s) @ ls2" ..
  with 1 show ?case by (simp add: lm)
qed

lemma made_first:
  assumes "channel_mult cfg = m # ms"
  shows "\<exists>ls. made (build_encoder cfg) = Conv2d (in_channels cfg) (model_channels cfg * m) 3 Init # ls"
proof -
  let ?s0 = "\<lparr>cout = in_channels cfg, enc = [], made = []\<rparr>"
  let ?c = "Conv2d (in_channels cfg) (model_channels cfg * m) 3 Init"
  let ?s1 = "enc_put (key_conv (img_resolution cfg)) ?c (model_channels cfg * m) ?s0"
  have e: "enumerate_list (channel_mult cfg) = (0, m) # zip [1..<Suc (length ms)] ms"
    using assms by (simp add: enumerate_list_def upt_conv_Cons del: upt_Suc)
  have l: "enc_level cfg 0 m ?s0 = enc_blocks cfg (img_resolution cfg) m [0..<nat (num_blocks cfg)] ?s1"
    by (simp add: enc_level_def Let_def)
  obtain ls1 where 1: "made (enc_level cfg 0 m ?s0) = made ?s1 @ ls1"
    unfolding l using made_blocks_grows by blast
  obtain ls2 where "made (build_encoder cfg) = made (enc_level cfg 0 m ?s0) @ ls2"
    unfolding build_encoder_def e enc_levels.simps using made_levels_grows by blast
  with 1 show ?thesis by (simp add: enc_put_def)
qed


lemma shape_blocks:
  assumes "\<forall>l \<in> set (made s). stage_shape cfg l" "m \<in> set (channel_mult cfg)"
  shows "\<forall>l \<in> set (made (enc_blocks cfg r m idxs s)). stage_shape cfg l"
  using assms
proof (induction idxs arbitrary: s)
  case Nil then show ?case by simp
next
  case (Cons i idxs)
  let ?l = "UNetBlock (cout s) (model_channels cfg * m) False (r \<in> set (attn_resolutions cfg)) (kwargs_of cfg)"
  have "stage_shape cfg ?l" using Cons.prems(2) by (auto simp: stage_shape_def)
  with Cons.prems(1) have "\<forall>l \<in> set (made (enc_put (key_block r i) ?l (model_channels cfg * m) s)). stage_shape cfg l"
    by (simp add: enc_put_def)
  from Cons.IH [OF this Cons.prems(2)] show ?case by (simp add: Let_def)
qed

lemma shape_level:
  assumes "\<forall>l \<in> set (made s). stage_shape cfg l" "m \<in> set (channel_mult cfg)"
  shows "\<forall>l \<in> set (made (enc_level cfg level m s)). stage_shape cfg l"
proof -
  define s1 where "s1 = (if level = 0
                then (let cin = cout s;
                          cout' = model_channels cfg * m
                      in enc_put (key_conv (img_resolution cfg div 2 ^ level)) (Conv2d cin cout' 3 Init) cout' s)
                else enc_put (key_down (img_resolution cfg div 2 ^ level))
                       (UNetBlock (cout s) (cout s) True False (kwargs_of cfg)) (cout s) s)"
  have "\<forall>l \<in> set (made s1). stage_shape cfg l"
    using assms(1) by (auto simp: s1_def enc_put_def Let_def stage_shape_def)
  from shape_blocks [OF this assms(2)] show ?thesis
    by (simp add: enc_level_def s1_def Let_def)
qed

lemma shape_levels:
  assumes "\<forall>l \<in> set (made s). stage_shape cfg l" "\<forall>(level, m) \<in> set lms. m \<in> set (channel_mult cfg)"
  shows "\<forall>l \<in> set (made (enc_levels cfg lms s)). stage_shape cfg l"
  using assms
proof (induction lms arbitrary: s)
  case Nil then show ?case by simp
next
  case (Cons lm lms)
  obtain level m where lm: "lm = (level, m)" by (cases lm)
  have m: "m \<in> set (channel_mult cfg)" using Cons.prems(2) lm by auto
  have rest: "\<forall>(level, m) \<in> set lms. m \<in> set (channel_mult cfg)" using Cons.prems(2) by auto
  from Cons.IH [OF shape_level [OF Cons.prems(1) m] rest] show ?case by (simp add: lm)
qed

lemma made_shape: "\<forall>l \<in> set (made (build_encoder cfg)). stage_shape cfg l"
proof -
  have "\<forall>(level, m) \<in> set (enumerate_list (channel_mult cfg)). m \<in> set (channel_mult cfg)"
    by (auto simp: enumerate_list_def dest: set_zip_rightD)
  then show ?thesis
    unfolding build_encoder_def by (intro shape_levels) simp_all
qed

text \<open>
  Claim C10, as stated: for every configuration, in the encoder stage table each stage's
  output channel count is the input channel count of the stage after it. The keys of the
  table are formatted from the resolution \<^verbatim>\<open>img_resolution >> level\<close>; when two levels
  have the same resolution the later one assigns to the keys of the earlier one, which keep
  their place. With the default four levels and \<^verbatim>\<open>img_resolution = 1\<close> the resolutions are
  1, 0, 0, 0, and the table does not chain: \<^verbatim>\<open>1x1_block2\<close> puts out 192 channels and the
  \<^verbatim>\<open>0x0_down\<close> after it, written last by level 3, takes 576.
\<close>

theorem repeated_resolution_breaks_chain:
  "\<not> channels_chain (values_of (enc (build_encoder (default_config 1 2 2))))"
  by code_simp

text \<open>
  Claim C10, amended: for every configuration whose level resolutions
  \<^verbatim>\<open>img_resolution >> level\<close> are pairwise distinct, the encoder stage table bound to
  \<^verbatim>\<open>self.enc\<close> holds the stages in the order of their construction, and in it the output
  channel count of each stage is the input channel count of the stage that follows. For
  every configuration, distinct resolutions or not, the stages in the order of their
  construction fit in this way: the level-0 convolution, constructed first, maps
  \<^verbatim>\<open>in_channels\<close> to \<^verbatim>\<open>model_channels * mult\<close>, each downsampling block puts out the
  channel count it takes in, and each residual block takes in the output count of the stage
  constructed before it and puts out \<^verbatim>\<open>model_channels * mult\<close> for one of the multipliers.
\<close>

theorem encoder_stages_chain:
  "channels_chain (made (build_encoder cfg))
   \<and> (\<forall>m ms. channel_mult cfg = m # ms \<longrightarrow>
        hd (made (build_encoder cfg))
          = Conv2d (in_channels cfg) (model_channels cfg * m) 3 Init)
   \<and> (\<forall>l \<in> set (made (build_encoder cfg)).
        is_down l \<longrightarrow> layer_out_channels l = layer_in_channels l)
   \<and> (\<forall>l \<in> set (made (build_encoder cfg)).
        is_UNetBlock l \<and> \<not> is_down l \<longrightarrow>
          (\<exists>m \<in> set (channel_mult cfg). layer_out_channels l = model_channels cfg * m))
   \<and> self (snd (GuidanceNet_init base cfg)) ''enc''
        = Some (VModuleDict (enc (build_encoder cfg)))
   \<and> (distinct (level_resolutions cfg) \<longrightarrow>
        values_of (enc (build_encoder cfg)) = made (build_encoder cfg)
        \<and> channels_chain (values_of (enc (build_encoder cfg))))"
proof -
  let ?s0 = "\<lparr>cout = in_channels cfg, enc = [], made = []\<rparr>"
  have v: "values_of (enc (build_encoder cfg)) = made (build_encoder cfg)"
    if d: "distinct (level_resolutions cfg)"
  proof -
    have "table_inv {} ?s0" by (simp add: table_inv_def values_of_def)
    moreover have "distinct (map (\<lambda>(level, mult). img_resolution cfg div 2 ^ level)
                     (enumerate_list (channel_mult cfg)))"
      using d by (simp only: enumerate_resolutions)
    ultimately obtain R where "table_inv R (build_encoder cfg)"
      unfolding build_encoder_def using table_inv_levels [of "{}" ?s0 cfg] by auto
    then show ?thesis by (simp add: table_inv_def)
  qed
  have f: "hd (made (build_encoder cfg))
             = Conv2d (in_channels cfg) (model_channels cfg * m) 3 Init"
    if "channel_mult cfg = m # ms" for m ms
    using made_first [OF that] by auto
  have sh: "\<forall>l \<in> set (made (build_encoder cfg)). stage_shape cfg l" by (rule made_shape)
  have dn: "\<forall>l \<in> set (made (build_encoder cfg)).
              is_down l \<longrightarrow> layer_out_channels l = layer_in_channels l"
    using sh by (simp add: stage_shape_def)
  have rs: "\<forall>l \<in> set (made (build_encoder cfg)).
        is_UNetBlock l \<and> \<not> is_down l \<longrightarrow>
          (\<exists>m \<in> set (channel_mult cfg). layer_out_channels l = model_channels cfg * m)"
    using sh by (simp add: stage_shape_def)
  show ?thesis
    using v f dn rs made_chain [of cfg] enc_init [of base cfg] by simp
qed

theorem encoder_stages_chain_witness:
  "distinct (level_resolutions (default_config 16 2 2))
   \<and> channels_chain (values_of (enc (build_encoder (default_config 16 2 2))))
   \<and> hd (made (build_encoder (default_config 16 2 2))) = Conv2d 2 192 3 Init
   \<and> is_down (made (build_encoder (default_config 16 2 2)) ! 4)
   \<and> layer_out_channels (made (build_encoder (default_config 16 2 2)) ! 4)
       = layer_in_channels (made (build_encoder (default_config 16 2 2)) ! 4)
   \<and> is_UNetBlock (made (build_encoder (default_config 16 2 2)) ! 5)
   \<and> \<not> is_down (made (build_encoder (default_config 16 2 2)) ! 5)
   \<and> layer_out_channels (made (build_encoder (default_config 16 2 2)) ! 5) = 384"
proof -
  let ?dc = "default_config 16 2 2"
  have h: "distinct (level_resolutions ?dc)" by code_simp
  note t = encoder_stages_chain [of ?dc Module_init]
  have c: "channels_chain (values_of (enc (build_encoder ?dc)))"
    using t h by blast
  have cm: "channel_mult ?dc = 1 # [2, 3, 4]"
    by (simp add: default_config_def)
  have "hd (made (build_encoder ?dc))
          = Conv2d (in_channels ?dc) (model_channels ?dc * 1) 3 Init"
    using t cm by blast
  then have f: "hd (made (build_encoder ?dc)) = Conv2d 2 192 3 Init"
    by (simp add: default_config_def)
  have m4: "made (build_encoder ?dc) ! 4 \<in> set (made (build_encoder ?dc))"
    by code_simp
  have d4: "is_down (made (build_encoder ?dc) ! 4)" by code_simp
  have u5: "is_UNetBlock (made (build_encoder ?dc) ! 5)"
    and n5: "\<not> is_down (made (build_encoder ?dc) ! 5)"
    and o5: "layer_out_channels (made (build_encoder ?dc) ! 5) = 384"
    by code_simp+
  have e4: "layer_out_channels (made (build_encoder ?dc) ! 4)
              = layer_in_channels (made (build_encoder ?dc) ! 4)"
    using t m4 d4 by blast
  show ?thesis using h c f d4 e4 u5 n5 o5 by simp
qed

end
